theory Spec2Isabelle
  imports Main
begin

section \<open>Data model of apod\_desktop.py\<close>

text \<open>
  The program is a single script, \<^verbatim>\<open>src/apod_desktop.py\<close>. It targets Windows: it sets the
  wallpaper through \<^verbatim>\<open>ctypes.windll\<close> and builds the image path with a backslash, so
  \<^verbatim>\<open>os.path\<close> is \<^verbatim>\<open>ntpath\<close>. Python strings and bytes are both modelled as \<open>string\<close>
  (lists of 8-bit characters, i.e. code points below 256).

  One row of the table \<^verbatim>\<open>apod\<close> created by \<^verbatim>\<open>create_image_db\<close>.
\<close>

record image_row =
  image_location :: string
  image_size :: int
  image_sha256 :: string
  time_added :: string

text \<open>Every way in which a statement of the script can raise.\<close>

datatype error =
    SystemExit string
  | IndexError
  | KeyError
  | RequestException
  | JSONDecodeError
  | OperationalError
  | DatabaseError
  | OSError

text \<open>The arguments of one call of \<^verbatim>\<open>print\<close>.\<close>

datatype pyval =
    PStr string
  | PInt int
  | PDict "(string \<times> string) list"
  | PList "string list"

text \<open>What \<^verbatim>\<open>requests.get\<close> gives back: an exception, or a response with its
  \<^verbatim>\<open>content\<close> bytes and the outcome of \<^verbatim>\<open>json()\<close> (a dictionary of strings, or
  \<open>None\<close> when the body is not JSON).\<close>

datatype response =
    NetworkError
  | Response (content: string) (json: "(string \<times> string) list option")

type_synonym request = "string \<times> (string \<times> string) list"

text \<open>What SQLite finds in a file: something that is no database, a database without the
  table \<^verbatim>\<open>apod\<close>, or the rows of that table.\<close>

datatype dbfile =
    NotADatabase
  | NoTable
  | Apod "image_row list"

record datetime =
  dt_year :: nat
  dt_month :: nat
  dt_day :: nat
  dt_hour :: nat
  dt_minute :: nat
  dt_second :: nat
  dt_microsecond :: nat

text \<open>
  The inputs of one run, which the script only reads: the command line, which paths are
  directories, the clock as read by \<^verbatim>\<open>datetime.today()\<close> in \<^verbatim>\<open>get_apod_date\<close> and by
  \<^verbatim>\<open>datetime.now()\<close> in \<^verbatim>\<open>add_image_to_db\<close>, the network (its answer may depend on how many
  requests were made before), whether \<^verbatim>\<open>open(path, 'wb')\<close> succeeds, and what SQLite
  finds in a file that holds given bytes.
\<close>

record env =
  argv :: "string list"
  isdir :: "string \<Rightarrow> bool"
  today :: datetime
  now :: datetime
  net :: "nat \<Rightarrow> request \<Rightarrow> response"
  can_open :: "string \<Rightarrow> bool"
  sqlite_read :: "string \<Rightarrow> dbfile"

text \<open>
  What the script changes. The file at a path is seen in three ways: \<open>files\<close> gives the
  bytes that \<^verbatim>\<open>save_image_file\<close> wrote there, as long as no database statement has changed
  the file since; \<open>dbs\<close> gives the rows of the table \<^verbatim>\<open>apod\<close> that SQLite finds there
  (\<open>None\<close>: no such table); \<open>not_db\<close> holds the paths of files that SQLite cannot read
  as a database at all. Writing bytes to a path changes all three, so an image written
  over the database file replaces the store. Paths are compared as strings. Then come
  standard output, the requests sent so far, and the wallpaper last requested.
\<close>

record state =
  files :: "string \<rightharpoonup> string"
  dbs :: "string \<rightharpoonup> image_row list"
  not_db :: "string set"
  stdout :: "pyval list list"
  requests :: "request list"
  wallpaper :: "string option"

type_synonym 'a prog = "state \<Rightarrow> (error + 'a) \<times> state"

definition return :: "'a \<Rightarrow> 'a prog" where
  "return x st = (Inr x, st)"

definition raise :: "error \<Rightarrow> 'a prog" where
  "raise e st = (Inl e, st)"

definition bind :: "'a prog \<Rightarrow> ('a \<Rightarrow> 'b prog) \<Rightarrow> 'b prog" where
  "bind m f st = (case m st of (Inl e, st') \<Rightarrow> (Inl e, st') | (Inr x, st') \<Rightarrow> f x st')"

definition print :: "pyval list \<Rightarrow> unit prog" where
  "print args st = (Inr (), st\<lparr>stdout := stdout st @ [args]\<rparr>)"

text \<open>\<^verbatim>\<open>exit(msg)\<close> raises \<^verbatim>\<open>SystemExit\<close>.\<close>

definition exit :: "string \<Rightarrow> 'a prog" where
  "exit msg = raise (SystemExit msg)"

section \<open>The sqlite3 connection\<close>

text \<open>
  A connection holds the rows inserted since the last commit. \<^verbatim>\<open>CREATE TABLE IF NOT EXISTS\<close>
  takes effect at once, \<^verbatim>\<open>INSERT\<close> is pending until \<^verbatim>\<open>commit\<close>, \<^verbatim>\<open>close\<close> drops what is
  pending. A statement on a missing table raises \<^verbatim>\<open>OperationalError\<close>, and any statement
  on a file that is no database raises \<^verbatim>\<open>DatabaseError\<close>. A statement that changes the
  database file leaves no image bytes at that path.
\<close>

record connection =
  conn_path :: string
  pending :: "image_row list"

definition sqlite3_connect :: "string \<Rightarrow> connection prog" where
  "sqlite3_connect db_path = return \<lparr>conn_path = db_path, pending = []\<rparr>"

text \<open>The error of a statement that finds no table at the path.\<close>

definition no_table_error :: "state \<Rightarrow> string \<Rightarrow> error" where
  "no_table_error st p = (if p \<in> not_db st then DatabaseError else OperationalError)"

definition execute_create :: "connection \<Rightarrow> connection prog" where
  "execute_create conn st =
     (case dbs st (conn_path conn) of
        None \<Rightarrow>
          if conn_path conn \<in> not_db st then (Inl DatabaseError, st)
          else (Inr conn, st\<lparr>dbs := (dbs st)(conn_path conn \<mapsto> []),
                            files := (files st)(conn_path conn := None)\<rparr>)
      | Some rows \<Rightarrow> (Inr conn, st))"

definition execute_insert :: "connection \<Rightarrow> image_row \<Rightarrow> connection prog" where
  "execute_insert conn row st =
     (case dbs st (conn_path conn) of
        None \<Rightarrow> (Inl (no_table_error st (conn_path conn)), st)
      | Some rows \<Rightarrow> (Inr (conn\<lparr>pending := pending conn @ [row]\<rparr>), st))"

definition execute_select :: "connection \<Rightarrow> string \<Rightarrow> string list prog" where
  "execute_select conn hashie st =
     (case dbs st (conn_path conn) of
        None \<Rightarrow> (Inl (no_table_error st (conn_path conn)), st)
      | Some rows \<Rightarrow>
          (Inr (map image_sha256
                  (filter (\<lambda>r. image_sha256 r = hashie) (rows @ pending conn))), st))"

definition commit :: "connection \<Rightarrow> connection prog" where
  "commit conn st =
     (case dbs st (conn_path conn) of
        None \<Rightarrow> (Inr conn, st)
      | Some rows \<Rightarrow>
          if pending conn = [] then (Inr conn, st)
          else (Inr (conn\<lparr>pending := []\<rparr>),
                st\<lparr>dbs := (dbs st)(conn_path conn \<mapsto> rows @ pending conn),
                   files := (files st)(conn_path conn := None)\<rparr>))"

definition close :: "connection \<Rightarrow> unit prog" where
  "close conn = return ()"

section \<open>Formatting dates\<close>

definition digit :: "nat \<Rightarrow> char" where
  "digit n = ''0123456789'' ! (n mod 10)"

definition pad2 :: "nat \<Rightarrow> string" where
  "pad2 n = [digit (n div 10), digit n]"

definition pad4 :: "nat \<Rightarrow> string" where
  "pad4 n = [digit (n div 1000), digit (n div 100), digit (n div 10), digit n]"

definition pad6 :: "nat \<Rightarrow> string" where
  "pad6 n = [digit (n div 100000), digit (n div 10000), digit (n div 1000),
             digit (n div 100), digit (n div 10), digit n]"

text \<open>\<^verbatim>\<open>now.strftime("%Y-/%m-/%d %H:%M:%S")\<close>, the format string of \<^verbatim>\<open>add_image_to_db\<close>.\<close>

definition strftime :: "datetime \<Rightarrow> string" where
  "strftime d =
     pad4 (dt_year d) @ ''-/'' @ pad2 (dt_month d) @ ''-/'' @ pad2 (dt_day d) @ '' '' @
     pad2 (dt_hour d) @ '':'' @ pad2 (dt_minute d) @ '':'' @ pad2 (dt_second d)"

text \<open>\<^verbatim>\<open>datetime.isoformat()\<close>: date, the letter T, time, and the microseconds unless zero.\<close>

definition isoformat :: "datetime \<Rightarrow> string" where
  "isoformat d =
     pad4 (dt_year d) @ ''-'' @ pad2 (dt_month d) @ ''-'' @ pad2 (dt_day d) @ ''T'' @
     pad2 (dt_hour d) @ '':'' @ pad2 (dt_minute d) @ '':'' @ pad2 (dt_second d) @
     (if dt_microsecond d = 0 then [] else ''.'' @ pad6 (dt_microsecond d))"

section \<open>The store operations\<close>

definition create_image_db :: "string \<Rightarrow> unit prog" where
  "create_image_db db_path =
     bind (sqlite3_connect db_path) (\<lambda>conn.
     bind (execute_create conn) (\<lambda>conn.
     bind (commit conn) (\<lambda>conn.
     close conn)))"

definition add_image_to_db :: "env \<Rightarrow> string \<Rightarrow> string \<Rightarrow> int \<Rightarrow> string \<Rightarrow> unit prog" where
  "add_image_to_db e db_path image_path size' sha256' =
     (let current_time = strftime (now e) in
      bind (sqlite3_connect db_path) (\<lambda>conn.
      bind (execute_insert conn
              \<lparr>image_location = image_path, image_size = size',
               image_sha256 = sha256', time_added = current_time\<rparr>) (\<lambda>conn.
      bind (commit conn) (\<lambda>conn.
      close conn))))"

definition image_already_in_db :: "string \<Rightarrow> string \<Rightarrow> bool prog" where
  "image_already_in_db db_path sha256' =
     bind (sqlite3_connect db_path) (\<lambda>conn.
     bind (execute_select conn sha256') (\<lambda>results.
     bind (print [PList results]) (\<lambda>_.
     if length results \<ge> 1
     then bind (print [PStr ''yes'']) (\<lambda>_. return True)
     else bind (print [PStr ''no'']) (\<lambda>_. return False))))"

section \<open>Paths\<close>

text \<open>
  \<^verbatim>\<open>ntpath.splitdrive\<close>, \<^verbatim>\<open>ntpath.basename\<close> and \<^verbatim>\<open>ntpath.join\<close> of the standard library, as of
  Python 3.10 (the script is dated 2022). Both the backslash and the slash separate
  components; a drive is a letter with a colon, or the \<^verbatim>\<open>\\host\share\<close> of a UNC path.
\<close>

definition sep :: char where
  "sep = CHR 0x5C"

definition altsep :: char where
  "altsep = CHR 0x2F"

definition is_sep :: "char \<Rightarrow> bool" where
  "is_sep c = (c = sep \<or> c = altsep)"

definition find_sep :: "string \<Rightarrow> nat option" where
  "find_sep p =
     (let i = length (takeWhile (\<lambda>c. \<not> is_sep c) p)
      in if i < length p then Some i else None)"

definition splitdrive :: "string \<Rightarrow> string \<times> string" where
  "splitdrive p =
     (if length p \<ge> 2 then
        if is_sep (p ! 0) \<and> is_sep (p ! 1) \<and> \<not> (length p > 2 \<and> is_sep (p ! 2)) then
          (case find_sep (drop 2 p) of
             None \<Rightarrow> ([], p)
           | Some i \<Rightarrow>
               (case find_sep (drop (2 + i + 1) p) of
                  None \<Rightarrow> (p, [])
                | Some j \<Rightarrow>
                    if j = 0 then ([], p)
                    else (take (2 + i + 1 + j) p, drop (2 + i + 1 + j) p)))
        else if p ! 1 = CHR '':'' then (take 2 p, drop 2 p)
        else ([], p)
      else ([], p))"

definition basename :: "string \<Rightarrow> string" where
  "basename p = rev (takeWhile (\<lambda>c. \<not> is_sep c) (rev (snd (splitdrive p))))"

definition lower_char :: "char \<Rightarrow> char" where
  "lower_char c =
     (let n = (of_char c :: nat)
      in if (65 \<le> n \<and> n \<le> 90) \<or> (192 \<le> n \<and> n \<le> 222 \<and> n \<noteq> 215)
         then char_of (n + 32) else c)"

definition join_finish :: "string \<Rightarrow> string \<Rightarrow> string" where
  "join_finish result_drive result_path =
     (if result_path \<noteq> [] \<and> \<not> is_sep (hd result_path) \<and>
         result_drive \<noteq> [] \<and> last result_drive \<noteq> CHR '':''
      then result_drive @ [sep] @ result_path
      else result_drive @ result_path)"

definition join_relative :: "string \<Rightarrow> string \<Rightarrow> string \<Rightarrow> string" where
  "join_relative result_drive result_path p_path =
     join_finish result_drive
       ((if result_path \<noteq> [] \<and> \<not> is_sep (last result_path)
         then result_path @ [sep] else result_path) @ p_path)"

definition join :: "string \<Rightarrow> string \<Rightarrow> string" where
  "join path p =
     (let (result_drive, result_path) = splitdrive path;
          (p_drive, p_path) = splitdrive p
      in if p_path \<noteq> [] \<and> is_sep (hd p_path) then
           join_finish (if p_drive \<noteq> [] \<or> result_drive = [] then p_drive else result_drive)
             p_path
         else if p_drive \<noteq> [] \<and> p_drive \<noteq> result_drive then
           if map lower_char p_drive \<noteq> map lower_char result_drive
           then join_finish p_drive p_path
           else join_relative p_drive result_path p_path
         else join_relative result_drive result_path p_path)"

definition get_image_path :: "string \<Rightarrow> string \<Rightarrow> string" where
  "get_image_path image_url dir_path =
     (let image_name = basename image_url;
          image_path = dir_path @ [sep] @ image_name
      in image_path)"

section \<open>Parsing dates\<close>

text \<open>
  \<^verbatim>\<open>datetime.strptime(s, '%Y-%m-%d')\<close>. The library compiles the format to the regular
  expression \<^verbatim>\<open>(\d\d\d\d)-(1[0-2]|0[1-9]|[1-9])-(3[0-1]|[1-2]\d|0[1-9]|[1-9]| [1-9])\<close>, demands
  that it match the whole string, and builds a date, which fails for year 0 and for a day
  the month does not have. The leading zero of month and day is optional, as the
  library's documentation says of \<^verbatim>\<open>%m\<close> and \<^verbatim>\<open>%d\<close>.
\<close>

definition is_digit :: "char \<Rightarrow> bool" where
  "is_digit c = (48 \<le> (of_char c :: nat) \<and> (of_char c :: nat) \<le> 57)"

definition digit_val :: "char \<Rightarrow> nat" where
  "digit_val c = of_char c - 48"

definition parse_year :: "string \<Rightarrow> nat option" where
  "parse_year s =
     (case s of
        [a, b, c, d] \<Rightarrow>
          if is_digit a \<and> is_digit b \<and> is_digit c \<and> is_digit d
          then Some (1000 * digit_val a + 100 * digit_val b + 10 * digit_val c + digit_val d)
          else None
      | _ \<Rightarrow> None)"

definition parse_month :: "string \<Rightarrow> nat option" where
  "parse_month s =
     (case s of
        [a] \<Rightarrow> if is_digit a \<and> a \<noteq> CHR ''0'' then Some (digit_val a) else None
      | [a, b] \<Rightarrow>
          if a = CHR ''1'' \<and> is_digit b \<and> digit_val b \<le> 2 then Some (10 + digit_val b)
          else if a = CHR ''0'' \<and> is_digit b \<and> b \<noteq> CHR ''0'' then Some (digit_val b)
          else None
      | _ \<Rightarrow> None)"

definition parse_day :: "string \<Rightarrow> nat option" where
  "parse_day s =
     (case s of
        [a] \<Rightarrow> if is_digit a \<and> a \<noteq> CHR ''0'' then Some (digit_val a) else None
      | [a, b] \<Rightarrow>
          if a = CHR ''3'' \<and> is_digit b \<and> digit_val b \<le> 1 then Some (30 + digit_val b)
          else if (a = CHR ''1'' \<or> a = CHR ''2'') \<and> is_digit b
            then Some (10 * digit_val a + digit_val b)
          else if (a = CHR ''0'' \<or> a = CHR '' '') \<and> is_digit b \<and> b \<noteq> CHR ''0''
            then Some (digit_val b)
          else None
      | _ \<Rightarrow> None)"

definition is_leap :: "nat \<Rightarrow> bool" where
  "is_leap y = (y mod 4 = 0 \<and> (y mod 100 \<noteq> 0 \<or> y mod 400 = 0))"

definition days_in_month :: "nat \<Rightarrow> nat \<Rightarrow> nat" where
  "days_in_month y m =
     (if m = 2 then (if is_leap y then 29 else 28)
      else if m = 4 \<or> m = 6 \<or> m = 9 \<or> m = 11 then 30 else 31)"

definition strptime :: "string \<Rightarrow> (nat \<times> nat \<times> nat) option" where
  "strptime s =
     (case s of
        y1 # y2 # y3 # y4 # dash # rest \<Rightarrow>
          if dash \<noteq> CHR ''-'' then None
          else
            (case dropWhile (\<lambda>c. c \<noteq> CHR ''-'') rest of
               [] \<Rightarrow> None
             | _ # dtxt \<Rightarrow>
                 (case (parse_year [y1, y2, y3, y4],
                        parse_month (takeWhile (\<lambda>c. c \<noteq> CHR ''-'') rest),
                        parse_day dtxt) of
                    (Some y, Some m, Some d) \<Rightarrow>
                      if 1 \<le> y \<and> d \<le> days_in_month y m then Some (y, m, d) else None
                  | _ \<Rightarrow> None))
      | _ \<Rightarrow> None)"

section \<open>The argument resolver\<close>

definition get_image_dir_path :: "env \<Rightarrow> string prog" where
  "get_image_dir_path e =
     (if length (argv e) < 2 then raise IndexError
      else if length (argv e ! 1) \<ge> 2 then
        (let dir_path = argv e ! 1
         in if isdir e dir_path then
              bind (print [PStr ''Images directory:'', PStr dir_path]) (\<lambda>_.
              return dir_path)
            else
              bind (print [PStr ''Error: Non-existent directory'', PStr dir_path]) (\<lambda>_.
              exit ''Script execution aborted''))
      else
        bind (print [PStr ''Error: Missing path parameter.'']) (\<lambda>_.
        exit ''Script execution aborted''))"

definition get_apod_date :: "env \<Rightarrow> string prog" where
  "get_apod_date e =
     bind (if length (argv e) \<ge> 3 then
             (let apod_date = argv e ! 2
              in case strptime apod_date of
                   None \<Rightarrow>
                     bind (print [PStr ''Error: Incorrect date format; Should be YYYY-MM-DD''])
                       (\<lambda>_. exit ''Script execution aborted'')
                 | Some _ \<Rightarrow> return apod_date)
           else return (isoformat (today e))) (\<lambda>apod_date.
     bind (print [PStr ''APOD date:'', PStr apod_date]) (\<lambda>_.
     return apod_date))"

section \<open>The network, the file writer and the wallpaper\<close>

text \<open>\<^verbatim>\<open>requests.get(url, params=...)\<close>: the request is recorded, then answered by the
  network of the run.\<close>

definition requests_get ::
  "env \<Rightarrow> string \<Rightarrow> (string \<times> string) list
     \<Rightarrow> (string \<times> (string \<times> string) list option) prog" where
  "requests_get e url params st =
     (let st' = st\<lparr>requests := requests st @ [(url, params)]\<rparr>
      in case net e (length (requests st)) (url, params) of
           NetworkError \<Rightarrow> (Inl RequestException, st')
         | Response c j \<Rightarrow> (Inr (c, j), st'))"

text \<open>The endpoint of \<^verbatim>\<open>get_apod_info\<close>; the key that follows \<^verbatim>\<open>api_key=\<close> in the source is
  left out here.\<close>

definition apod_api_url :: string where
  "apod_api_url = ''https://api.nasa.gov/planetary/apod?api_key=''"

definition get_apod_info :: "env \<Rightarrow> string \<Rightarrow> (string \<times> string) list prog" where
  "get_apod_info e apod_date =
     (let data = [(''date'', apod_date)]
      in bind (requests_get e apod_api_url data) (\<lambda>r.
         case snd r of
           None \<Rightarrow> raise JSONDecodeError
         | Some apod_dict \<Rightarrow>
             bind (print [PDict apod_dict]) (\<lambda>_.
             return apod_dict)))"

text \<open>\<^verbatim>\<open>apod_dict['url']\<close>.\<close>

definition getitem :: "(string \<times> string) list \<Rightarrow> string \<Rightarrow> string prog" where
  "getitem d k = (case map_of d k of None \<Rightarrow> raise KeyError | Some v \<Rightarrow> return v)"

text \<open>\<^verbatim>\<open>str.encode()\<close>, UTF-8, on code points below 256.\<close>

definition encode_char :: "char \<Rightarrow> string" where
  "encode_char c =
     (let n = (of_char c :: nat)
      in if n < 128 then [c] else [char_of (192 + n div 64), char_of (128 + n mod 64)])"

definition encode :: "string \<Rightarrow> string" where
  "encode s = concat (map encode_char s)"

definition print_apod_info :: "string \<Rightarrow> string \<Rightarrow> int \<Rightarrow> string \<Rightarrow> unit prog" where
  "print_apod_info image_url image_path size' sha256' =
     bind (print [PStr image_url]) (\<lambda>_.
     bind (print [PStr image_path]) (\<lambda>_.
     bind (print [PInt size', PStr ''bytes'']) (\<lambda>_.
     print [PStr sha256'])))"

definition download_apod_image :: "env \<Rightarrow> string \<Rightarrow> string prog" where
  "download_apod_image e image_url =
     bind (requests_get e image_url []) (\<lambda>response.
     return (fst response))"

text \<open>
  What SQLite finds in a file of given bytes (an empty file is a database without
  tables), and the table that goes with it.
\<close>

definition read_as_db :: "env \<Rightarrow> string \<Rightarrow> dbfile" where
  "read_as_db e b = (if b = [] then NoTable else sqlite_read e b)"

definition table_of :: "dbfile \<Rightarrow> image_row list option" where
  "table_of f = (case f of Apod rows \<Rightarrow> Some rows | _ \<Rightarrow> None)"

text \<open>
  \<^verbatim>\<open>open(image_path, 'wb')\<close>, \<^verbatim>\<open>write\<close>, \<^verbatim>\<open>close\<close>: the file at the path is replaced by the
  bytes, whatever it held before, the store included.
\<close>

definition save_image_file :: "env \<Rightarrow> string \<Rightarrow> string \<Rightarrow> unit prog" where
  "save_image_file e image_msg image_path st =
     (if can_open e image_path
      then (Inr (),
            st\<lparr>files := (files st)(image_path \<mapsto> image_msg),
               dbs := (dbs st)(image_path := table_of (read_as_db e image_msg)),
               not_db := (if read_as_db e image_msg = NotADatabase
                          then insert image_path (not_db st)
                          else not_db st - {image_path})\<rparr>)
      else (Inl OSError, st))"

definition set_desktop_background_image :: "string \<Rightarrow> unit prog" where
  "set_desktop_background_image image_path st =
     (Inr (), st\<lparr>wallpaper := Some image_path\<rparr>)"

section \<open>The workflow\<close>

text \<open>
  \<^verbatim>\<open>main\<close>, statement by statement. \<^verbatim>\<open>hashlib.sha256(b).hexdigest()\<close> is the parameter
  \<open>hexdigest\<close>: nothing below depends on how the digest is computed.
\<close>

definition main :: "(string \<Rightarrow> string) \<Rightarrow> env \<Rightarrow> unit prog" where
  "main hexdigest e =
     bind (get_image_dir_path e) (\<lambda>image_dir_path.
     let db_path = join image_dir_path ''apod_images.db'' in
     bind (get_apod_date e) (\<lambda>apod_date.
     bind (create_image_db db_path) (\<lambda>_.
     bind (get_apod_info e apod_date) (\<lambda>apod_dict.
     bind (getitem apod_dict ''url'') (\<lambda>image_url.
     let sha256' = hexdigest (encode image_url) in
     bind (requests_get e image_url []) (\<lambda>response.
     let size' = int (length (fst response));
         image_path = get_image_path image_url image_dir_path in
     bind (download_apod_image e image_url) (\<lambda>image_msg.
     bind (print_apod_info image_url image_path size' sha256') (\<lambda>_.
     bind (image_already_in_db db_path sha256') (\<lambda>present.
     bind (if \<not> present then
             bind (save_image_file e image_msg image_path) (\<lambda>_.
             add_image_to_db e db_path image_path size' sha256')
           else return ()) (\<lambda>_.
     set_desktop_background_image image_path))))))))))"


section \<open>Notions used in the statements\<close>

text \<open>The rows of the table at a path; none when there is no table.\<close>

definition table_rows :: "state \<Rightarrow> string \<Rightarrow> image_row list" where
  "table_rows st p = (case dbs st p of None \<Rightarrow> [] | Some rows \<Rightarrow> rows)"



text \<open>
  The date format as the specification words it, \<^verbatim>\<open>YYYY-MM-DD\<close> taken strictly: four digits,
  two digits and two digits between dashes, naming a calendar date.
\<close>

definition strict_ymd :: "string \<Rightarrow> bool" where
  "strict_ymd s =
     (case s of
        [y1, y2, y3, y4, a, m1, m2, b, d1, d2] \<Rightarrow>
          is_digit m1 \<and> is_digit m2 \<and> is_digit d1 \<and> is_digit d2 \<and> strptime s \<noteq> None
      | _ \<Rightarrow> False)"

section \<open>Concrete runs\<close>

text \<open>
  A stand-in for the digest in the concrete runs below, which returns the bytes it is
  given: what a run stores as a hash then shows which bytes were hashed.
\<close>

definition digest0 :: "string \<Rightarrow> string" where
  "digest0 b = b"

definition dt0 :: datetime where
  "dt0 = \<lparr>dt_year = 2022, dt_month = 4, dt_day = 7, dt_hour = 15, dt_minute = 30,
          dt_second = 12, dt_microsecond = 123456\<rparr>"

text \<open>A network whose endpoint names the image \<^verbatim>\<open>https://x/img.jpg\<close> and which serves three
  bytes to the second request of a run and five bytes to any other.\<close>

definition net0 :: "nat \<Rightarrow> request \<Rightarrow> response" where
  "net0 n req =
     (if fst req = apod_api_url then Response ''{}'' (Some [(''url'', ''https://x/img.jpg'')])
      else if n = 1 then Response ''abc'' None
      else Response ''abcde'' None)"

text \<open>A run with the directory \<^verbatim>\<open>C:/apod\<close> and no date, in which every file can be written
  and no bytes are a database.\<close>

definition env0 :: env where
  "env0 = \<lparr>argv = [''apod_desktop.py'', ''C:/apod''], isdir = (\<lambda>p. p = ''C:/apod''),
           today = dt0, now = dt0, net = net0, can_open = (\<lambda>_. True),
           sqlite_read = (\<lambda>_. NotADatabase)\<rparr>"

text \<open>The same run with the date argument \<^verbatim>\<open>2022-4-7\<close>, with an unparsable date, and with the
  current directory \<^verbatim>\<open>.\<close> as the image directory.\<close>

definition env_loose_date :: env where
  "env_loose_date = env0\<lparr>argv := [''apod_desktop.py'', ''C:/apod'', ''2022-4-7'']\<rparr>"

definition env_bad_date :: env where
  "env_bad_date = env0\<lparr>argv := [''apod_desktop.py'', ''C:/apod'', ''07/04/2022'']\<rparr>"

definition env_dot :: env where
  "env_dot = env0\<lparr>argv := [''apod_desktop.py'', ''.''], isdir := (\<lambda>p. p = ''.'')\<rparr>"

text \<open>The same run with the bare drive \<^verbatim>\<open>C:\<close> as the image directory.\<close>

definition env_drive :: env where
  "env_drive = env0\<lparr>argv := [''apod_desktop.py'', ''C:''], isdir := (\<lambda>p. p = ''C:'')\<rparr>"





definition state0 :: state where
  "state0 = \<lparr>files = Map.empty, dbs = Map.empty, not_db = {}, stdout = [], requests = [],
             wallpaper = None\<rparr>"

definition db0 :: string where
  "db0 = ''C:/apod'' @ [sep] @ ''apod_images.db''"

definition img0 :: string where
  "img0 = ''C:/apod'' @ [sep] @ ''img.jpg''"

definition row0 :: image_row where
  "row0 = \<lparr>image_location = img0, image_size = 3, image_sha256 = ''https://x/img.jpg'',
           time_added = ''2022-/04-/07 15:30:12''\<rparr>"



text \<open>A store that already holds the record of that image, and no image file.\<close>

definition state_cached :: state where
  "state_cached = state0\<lparr>dbs := [db0 \<mapsto> [row0]]\<rparr>"


section \<open>Facts about the operations\<close>

lemmas prog_defs = bind_def return_def raise_def exit_def print_def

lemmas sql_defs = sqlite3_connect_def execute_create_def execute_insert_def
  execute_select_def commit_def close_def

lemma filter_hash_nonempty:
  "(Suc 0 \<le> length (filter (\<lambda>r. image_sha256 r = h) rows)) = (h \<in> image_sha256 ` set rows)"
  by (induction rows) auto

lemma create_image_db_eq:
  "create_image_db p st =
     (case dbs st p of
        Some rows \<Rightarrow> (Inr (), st)
      | None \<Rightarrow>
          if p \<in> not_db st then (Inl DatabaseError, st)
          else (Inr (), st\<lparr>dbs := (dbs st)(p \<mapsto> []), files := (files st)(p := None)\<rparr>))"
  by (simp add: create_image_db_def prog_defs sql_defs split: option.splits)

lemma add_image_to_db_eq:
  "add_image_to_db e p ip s h st =
     (case dbs st p of
        None \<Rightarrow> (Inl (no_table_error st p), st)
      | Some rows \<Rightarrow>
          (Inr (), st\<lparr>dbs := (dbs st)(p \<mapsto> rows @
             [\<lparr>image_location = ip, image_size = s, image_sha256 = h,
               time_added = strftime (now e)\<rparr>]),
             files := (files st)(p := None)\<rparr>))"
  by (simp add: add_image_to_db_def prog_defs sql_defs Let_def split: option.splits)

lemma image_already_in_db_eq:
  "image_already_in_db p h st =
     (case dbs st p of
        None \<Rightarrow> (Inl (no_table_error st p), st)
      | Some rows \<Rightarrow>
          (Inr (h \<in> image_sha256 ` set rows),
           st\<lparr>stdout := stdout st @
             [[PList (map image_sha256 (filter (\<lambda>r. image_sha256 r = h) rows))],
              [PStr (if h \<in> image_sha256 ` set rows then ''yes'' else ''no'')]]\<rparr>))"
  by (simp add: image_already_in_db_def prog_defs sql_defs filter_hash_nonempty
      split: option.splits)

lemma requests_get_eq:
  "requests_get e url params st =
     (case net e (length (requests st)) (url, params) of
        NetworkError \<Rightarrow> (Inl RequestException, st\<lparr>requests := requests st @ [(url, params)]\<rparr>)
      | Response c j \<Rightarrow> (Inr (c, j), st\<lparr>requests := requests st @ [(url, params)]\<rparr>))"
  by (simp add: requests_get_def Let_def)

lemma print_apod_info_eq:
  "print_apod_info u ip s h st =
     (Inr (), st\<lparr>stdout := stdout st @
        [[PStr u], [PStr ip], [PInt s, PStr ''bytes''], [PStr h]]\<rparr>)"
  by (simp add: print_apod_info_def prog_defs)


subsection \<open>What a step that returns has done\<close>















subsection \<open>Which steps can raise \<^verbatim>\<open>OSError\<close>\<close>














subsection \<open>What a run has done when it reaches the cache check\<close>



subsection \<open>What a run that ends normally has done\<close>


subsection \<open>What a run has done when the image file cannot be opened\<close>


subsection \<open>Every run keeps the hashes of a table distinct\<close>




















subsection \<open>Evaluating the concrete runs\<close>

lemmas run_defs = main_def get_image_dir_path_def get_apod_date_def get_apod_info_def getitem_def
  download_apod_image_def save_image_file_def set_desktop_background_image_def
  create_image_db_eq add_image_to_db_eq image_already_in_db_eq requests_get_eq print_apod_info_eq
  prog_defs Let_def table_rows_def read_as_db_def table_of_def

lemma join_db0: "join ''C:/apod'' ''apod_images.db'' = db0"
  by (simp add: join_def splitdrive_def join_relative_def join_finish_def is_sep_def sep_def
      altsep_def find_sep_def db0_def)

lemma encode_url0:
  "encode ''https://x/img.jpg'' = ''https://x/img.jpg''"
  "encode ''https://y/img.jpg'' = ''https://y/img.jpg''"
  by (simp_all add: encode_def encode_char_def)

lemma get_image_path0:
  "get_image_path ''https://x/img.jpg'' ''C:/apod'' = img0"
  "get_image_path ''https://y/img.jpg'' ''C:/apod'' = img0"
  by (simp_all add: get_image_path_def basename_def splitdrive_def is_sep_def sep_def altsep_def
      find_sep_def img0_def)

lemma strftime_dt0: "strftime dt0 = ''2022-/04-/07 15:30:12''"
  by (simp add: strftime_def dt0_def pad2_def pad4_def digit_def)

lemma isoformat_dt0: "isoformat dt0 = ''2022-04-07T15:30:12.123456''"
  by (simp add: isoformat_def dt0_def pad2_def pad4_def pad6_def digit_def)

lemma url0_neq:
  "''https://x/img.jpg'' \<noteq> apod_api_url"
  "''https://y/img.jpg'' \<noteq> apod_api_url"
  by (simp_all add: apod_api_url_def)

lemma img0_neq_db0: "img0 \<noteq> db0" "db0 \<noteq> img0"
  by (simp_all add: img0_def db0_def)

lemmas concrete_simps = run_defs env0_def net0_def digest0_def row0_def join_db0
  encode_url0 get_image_path0 strftime_dt0 isoformat_dt0 url0_neq img0_neq_db0

lemma state0_simps:
  "files state0 = Map.empty" "dbs state0 = Map.empty" "requests state0 = []"
  "table_rows state0 p = []"
  by (simp_all add: state0_def table_rows_def)














subsection \<open>The resolver\<close>

lemma get_apod_date_reject:
  assumes "3 \<le> length (argv e)" and "strptime (argv e ! 2) = None"
  shows "get_apod_date e st =
    (Inl (SystemExit ''Script execution aborted''),
     st\<lparr>stdout := stdout st @ [[PStr ''Error: Incorrect date format; Should be YYYY-MM-DD'']]\<rparr>)"
  using assms by (simp add: get_apod_date_def prog_defs)

lemma get_image_dir_path_eq:
  assumes "2 \<le> length (argv e)"
  shows "get_image_dir_path e st =
    (if 2 \<le> length (argv e ! 1) \<and> isdir e (argv e ! 1)
     then (Inr (argv e ! 1),
           st\<lparr>stdout := stdout st @ [[PStr ''Images directory:'', PStr (argv e ! 1)]]\<rparr>)
     else (Inl (SystemExit ''Script execution aborted''),
           st\<lparr>stdout := stdout st @
             [if 2 \<le> length (argv e ! 1)
              then [PStr ''Error: Non-existent directory'', PStr (argv e ! 1)]
              else [PStr ''Error: Missing path parameter.'']]\<rparr>))"
  using assms by (simp add: get_image_dir_path_def prog_defs Let_def)

lemma strict_ymd_parses: "strict_ymd s \<Longrightarrow> strptime s \<noteq> None"
  by (auto simp: strict_ymd_def split: list.splits)

lemma strptime_loose: "strptime ''2022-4-7'' = Some (2022, 4, 7)"
  by (simp add: strptime_def parse_year_def parse_month_def parse_day_def is_digit_def
      digit_val_def days_in_month_def is_leap_def)

lemma strptime_bad: "strptime ''07/04/2022'' = None"
  by (simp add: strptime_def)

subsection \<open>Drives, names and joins\<close>

lemma basename_url0: "basename ''https://x/img.jpg'' = ''img.jpg''"
  by (simp add: basename_def splitdrive_def is_sep_def sep_def altsep_def find_sep_def)

lemma drive_paths:
  "get_image_path ''https://x/img.jpg'' ''C:'' = ''C:'' @ [sep] @ ''img.jpg''"
  "join ''C:'' ''apod_images.db'' = ''C:apod_images.db''"
  "join ''C:'' ''img.jpg'' = ''C:img.jpg''"
  by (simp_all add: get_image_path_def basename_url0 join_def splitdrive_def join_relative_def
      join_finish_def is_sep_def sep_def altsep_def find_sep_def)

section \<open>The store\<close>

text \<open>
  C4. Round trip of the store operations. On a database that has the table, inserting a
  record with hash \<open>h\<close> succeeds and appends exactly that record; the existence check for
  \<open>h\<close> then returns True, and the check for any hash that is neither \<open>h\<close> nor the hash of a
  row inserted earlier returns False. (On a database without the table the insert raises.)
\<close>

theorem store_round_trip:
  assumes "dbs st db_path = Some rows"
  shows "fst (add_image_to_db e db_path p s h st) = Inr () \<and>
         dbs (snd (add_image_to_db e db_path p s h st)) db_path =
           Some (rows @ [\<lparr>image_location = p, image_size = s, image_sha256 = h,
                           time_added = strftime (now e)\<rparr>]) \<and>
         fst (image_already_in_db db_path h (snd (add_image_to_db e db_path p s h st))) =
           Inr True \<and>
         (\<forall>h'. h' \<noteq> h \<and> h' \<notin> image_sha256 ` set rows \<longrightarrow>
            fst (image_already_in_db db_path h' (snd (add_image_to_db e db_path p s h st))) =
              Inr False)"
  using assms by (simp add: add_image_to_db_eq image_already_in_db_eq)

theorem store_round_trip_witness:
  "dbs state_cached db0 = Some [row0] \<and>
   fst (add_image_to_db env0 db0 ''p'' 5 ''h'' state_cached) = Inr () \<and>
   fst (image_already_in_db db0 ''h''
          (snd (add_image_to_db env0 db0 ''p'' 5 ''h'' state_cached))) = Inr True \<and>
   fst (image_already_in_db db0 ''g''
          (snd (add_image_to_db env0 db0 ''p'' 5 ''h'' state_cached))) = Inr False"
  using store_round_trip [of state_cached db0 "[row0]" env0 "''p''" 5 "''h''"]
  by (simp add: state_cached_def state0_def row0_def)

text \<open>
  C10. The existence check is read-only. Whatever the state and the hash, after
  \<^verbatim>\<open>image_already_in_db\<close> every table holds the rows it held before, and so do the image
  files, the request log and the wallpaper: the call only adds lines to standard output.
  The connection it opens executes a \<^verbatim>\<open>SELECT\<close> and is never committed.
\<close>

theorem image_already_in_db_read_only:
  "dbs (snd (image_already_in_db db_path h st)) = dbs st \<and>
   files (snd (image_already_in_db db_path h st)) = files st \<and>
   requests (snd (image_already_in_db db_path h st)) = requests st \<and>
   wallpaper (snd (image_already_in_db db_path h st)) = wallpaper st"
  by (simp add: image_already_in_db_eq split: option.splits)




section \<open>The cache key and the cache gate\<close>

text \<open>
  C1. The claim is that the hash stored and used as the cache key is the digest of the
  downloaded image bytes. \<^verbatim>\<open>main\<close> computes it as \<^verbatim>\<open>sha256(image_url.encode())\<close>, the digest of
  the URL. In the run \<open>env0\<close> from the empty state, whatever the digest function \<open>H\<close>, the
  row stored carries \<open>H\<close> of the bytes of the URL \<^verbatim>\<open>https://x/img.jpg\<close>, while the bytes
  downloaded and written to the image file are \<^verbatim>\<open>abcde\<close>.
\<close>

theorem stored_hash_is_of_url:
  "dbs (snd (main H env0 state0)) db0 =
     Some [\<lparr>image_location = img0, image_size = 3,
            image_sha256 = H ''https://x/img.jpg'',
            time_added = ''2022-/04-/07 15:30:12''\<rparr>] \<and>
   files (snd (main H env0 state0)) img0 = Some ''abcde''"
  by (simp add: concrete_simps state0_def)







section \<open>The argument resolver\<close>

text \<open>
  C5. The claim is that every argument naming an existing directory is accepted. The
  resolver tests \<^verbatim>\<open>len(argv[1]) >= 2\<close>, the length of the argument itself, where the message
  of the other branch (``Missing path parameter'') and the sibling test
  \<^verbatim>\<open>len(argv) >= 3\<close> of \<^verbatim>\<open>get_apod_date\<close> show that the number of arguments was meant. With
  the existing directory \<^verbatim>\<open>.\<close> as argument the resolver prints that the path parameter is
  missing and exits.
\<close>

theorem one_char_directory_rejected:
  "argv env_dot = [''apod_desktop.py'', ''.''] \<and> isdir env_dot ''.'' \<and>
   get_image_dir_path env_dot state0 =
     (Inl (SystemExit ''Script execution aborted''),
      state0\<lparr>stdout := [[PStr ''Error: Missing path parameter.'']]\<rparr>)"
  by (simp add: get_image_dir_path_def prog_defs env_dot_def env0_def state0_def)

text \<open>
  C6. The claim is that without a date argument the resolver returns the current date in
  the format \<^verbatim>\<open>YYYY-MM-DD\<close>, as its docstring says. It returns
  \<^verbatim>\<open>datetime.today().isoformat()\<close>, a date and a time of day: on 7 April 2022 at
  15:30:12.123456 the string \<^verbatim>\<open>2022-04-07T15:30:12.123456\<close>, which is not of that format and
  which the resolver's own check of a supplied date would reject.
\<close>

theorem default_date_is_a_timestamp:
  "argv env0 = [''apod_desktop.py'', ''C:/apod''] \<and>
   fst (get_apod_date env0 state0) = Inr ''2022-04-07T15:30:12.123456'' \<and>
   \<not> strict_ymd ''2022-04-07T15:30:12.123456'' \<and>
   strptime ''2022-04-07T15:30:12.123456'' = None"
  by (simp add: get_apod_date_def prog_defs env0_def isoformat_dt0 strict_ymd_def strptime_def
      parse_year_def parse_month_def parse_day_def is_digit_def digit_val_def)

text \<open>
  C8. The claim is that every date argument that is not of the strict format
  \<^verbatim>\<open>YYYY-MM-DD\<close> ends the run before any network call. The resolver rejects what
  \<^verbatim>\<open>datetime.strptime(s, '%Y-%m-%d')\<close> rejects, and for \<^verbatim>\<open>strptime\<close> the leading zero of month
  and day is optional: the argument \<^verbatim>\<open>2022-4-7\<close> is not of the strict format, yet the run goes
  on, creates the store and sends its three requests, the first with that date.
\<close>

theorem loose_date_accepted_counterexample:
  "argv env_loose_date = [''apod_desktop.py'', ''C:/apod'', ''2022-4-7''] \<and>
   \<not> strict_ymd ''2022-4-7'' \<and>
   fst (main digest0 env_loose_date state0) = Inr () \<and>
   requests (snd (main digest0 env_loose_date state0)) =
     [(apod_api_url, [(''date'', ''2022-4-7'')]),
      (''https://x/img.jpg'', []), (''https://x/img.jpg'', [])] \<and>
   dbs (snd (main digest0 env_loose_date state0)) db0 = Some [row0]"
  by (simp add: concrete_simps env_loose_date_def state0_def strptime_loose strict_ymd_def)

text \<open>
  C8, as the code has it. For every date argument that \<^verbatim>\<open>strptime\<close> rejects under
  \<^verbatim>\<open>%Y-%m-%d\<close> (none of which is of the strict format), the run ends with
  \<^verbatim>\<open>SystemExit\<close> and has sent no request, created no store, written no file and set no
  wallpaper.
\<close>

theorem rejected_date_stops_run:
  assumes "3 \<le> length (argv e)" and "strptime (argv e ! 2) = None"
  shows "fst (main H e st) = Inl (SystemExit ''Script execution aborted'') \<and>
         requests (snd (main H e st)) = requests st \<and>
         dbs (snd (main H e st)) = dbs st \<and>
         files (snd (main H e st)) = files st \<and>
         wallpaper (snd (main H e st)) = wallpaper st \<and>
         \<not> strict_ymd (argv e ! 2)"
proof -
  from assms(1) have two: "2 \<le> length (argv e)"
    by simp
  have "fst (main H e st) = Inl (SystemExit ''Script execution aborted'')"
    and "requests (snd (main H e st)) = requests st"
    and "dbs (snd (main H e st)) = dbs st"
    and "files (snd (main H e st)) = files st"
    and "wallpaper (snd (main H e st)) = wallpaper st"
    unfolding main_def Let_def
    by (simp_all add: bind_def [of "get_image_dir_path e"] bind_def [of "get_apod_date e"]
        get_image_dir_path_eq [OF two] get_apod_date_reject [OF assms])
  moreover from assms(2) have "\<not> strict_ymd (argv e ! 2)"
    by (auto dest: strict_ymd_parses)
  ultimately show ?thesis
    by simp
qed

theorem rejected_date_stops_run_witness:
  "3 \<le> length (argv env_bad_date) \<and> strptime (argv env_bad_date ! 2) = None \<and>
   fst (main digest0 env_bad_date state0) = Inl (SystemExit ''Script execution aborted'') \<and>
   requests (snd (main digest0 env_bad_date state0)) = [] \<and>
   dbs (snd (main digest0 env_bad_date state0)) = Map.empty"
proof -
  have a: "3 \<le> length (argv env_bad_date)"
    by (simp add: env_bad_date_def)
  have b: "strptime (argv env_bad_date ! 2) = None"
    by (simp add: env_bad_date_def strptime_bad)
  from rejected_date_stops_run [OF a b, of digest0 state0] a b show ?thesis
    by (simp add: state0_simps)
qed

section \<open>The image path\<close>

text \<open>
  C9. The claim is that for every validated directory the image path is the directory
  joined, as a filesystem path, with the basename of the URL, so that the file lies inside
  the directory. \<^verbatim>\<open>get_image_path\<close>, whose docstring calls its argument the directory in
  which the image is saved, puts a backslash between the two whatever the directory looks
  like, where \<^verbatim>\<open>main\<close> builds the path of the database in the same directory with
  \<^verbatim>\<open>path.join\<close>. The resolver accepts the bare drive \<^verbatim>\<open>C:\<close>, which names the current directory
  of the drive. In that run the database is \<^verbatim>\<open>C:apod_images.db\<close>, a file of that directory,
  as the join of \<^verbatim>\<open>C:\<close> and \<^verbatim>\<open>img.jpg\<close> would be; the path computed for the image has the
  backslash after the colon, which names a file in the root of the drive, and the run
  writes the image there.
\<close>

theorem image_path_leaves_bare_drive:
  "argv env_drive = [''apod_desktop.py'', ''C:''] \<and>
   fst (get_image_dir_path env_drive state0) = Inr ''C:'' \<and>
   get_image_path ''https://x/img.jpg'' ''C:'' = ''C:'' @ [sep] @ ''img.jpg'' \<and>
   join ''C:'' (basename ''https://x/img.jpg'') = ''C:img.jpg'' \<and>
   join ''C:'' ''apod_images.db'' = ''C:apod_images.db'' \<and>
   get_image_path ''https://x/img.jpg'' ''C:'' \<noteq> join ''C:'' (basename ''https://x/img.jpg'') \<and>
   fst (main digest0 env_drive state0) = Inr () \<and>
   files (snd (main digest0 env_drive state0)) (''C:'' @ [sep] @ ''img.jpg'') = Some ''abcde'' \<and>
   files (snd (main digest0 env_drive state0)) ''C:img.jpg'' = None \<and>
   dbs (snd (main digest0 env_drive state0)) ''C:apod_images.db'' \<noteq> None"
  by (simp add: run_defs env_drive_def env0_def net0_def digest0_def drive_paths basename_url0
      encode_url0 url0_neq strftime_dt0 isoformat_dt0 state0_def sep_def)

theorem image_path_leaves_bare_drive_witness:
  "get_image_path ''https://x/img.jpg'' ''C:'' = ''C:'' @ [sep] @ ''img.jpg'' \<and>
   join ''C:'' ''apod_images.db'' = ''C:apod_images.db'' \<and>
   files (snd (main digest0 env_drive state0)) (''C:'' @ [sep] @ ''img.jpg'') = Some ''abcde'' \<and>
   files (snd (main digest0 env_drive state0)) ''C:img.jpg'' = None"
  using image_path_leaves_bare_drive by (elim conjE) (intro conjI; assumption)

end
